theory Spec2Isabelle
  imports Main "HOL-Library.Sublist" "HOL-Library.Word"
begin

section \<open>Python text\<close>

text \<open>
  A Python \<open>str\<close> is a sequence of Unicode code points, so text is a list of code points
  here. \<open>lit\<close> turns an ASCII literal of the source into such a list; the few
  non-ASCII characters of the source (emoji in labels) are written as code points.
\<close>

type_synonym pystr = "nat list"

definition lit :: "string \<Rightarrow> pystr" where
  "lit s = map of_char s"

text \<open>\<open>str(n)\<close> for a Python \<open>int\<close>: decimal digits, with a minus sign below zero.\<close>

fun str_nat :: "nat \<Rightarrow> pystr" where
  "str_nat n = (if n < 10 then [48 + n] else str_nat (n div 10) @ [48 + n mod 10])"

declare str_nat.simps [simp del]

definition str_int :: "int \<Rightarrow> pystr" where
  "str_int i = (if i < 0 then 45 # str_nat (nat (- i)) else str_nat (nat i))"

text \<open>Number of positions of \<open>s\<close> at which \<open>pat\<close> starts.\<close>

fun count_occurrences :: "'a list \<Rightarrow> 'a list \<Rightarrow> nat" where
  "count_occurrences pat [] = (if pat = [] then 1 else 0)"
| "count_occurrences pat (x # xs) =
     (if prefix pat (x # xs) then 1 else 0) + count_occurrences pat xs"

section \<open>The prompt builder (\<open>generate_content\<close>, lines 28 to 73)\<close>

text \<open>
  \<open>paragraph_map\<close> is the dictionary of lines 32 to 36, and
  \<open>actual_description_length\<close> the lookup \<open>paragraph_map.get(description_length,
  "2 paragraphs")\<close> of line 37.
\<close>

definition paragraph_map :: "pystr \<rightharpoonup> pystr" where
  "paragraph_map = map_of
     [(lit ''Short (1 paragraph)'', lit ''1 paragraph''),
      (lit ''Medium (2 paragraphs)'', lit ''2 paragraphs''),
      (lit ''Long (3 paragraphs)'', lit ''3 paragraphs'')]"

definition actual_description_length :: "pystr \<Rightarrow> pystr" where
  "actual_description_length description_length =
     (case paragraph_map description_length of
        Some v \<Rightarrow> v
      | None \<Rightarrow> lit ''2 paragraphs'')"

text \<open>
  The f-string of lines 39 to 73, cut at its replacement fields. The text before the first
  field starts with the newline after the opening quotes; every line of the literal keeps
  its four spaces of indentation, and lines 55, 64 and 70 hold four spaces only.
  \<open>format_instructions\<close> is the constant tail of the literal, from line 59 on.
\<close>

definition format_instructions :: pystr where
  "format_instructions =
     lit ''    Format your output clearly as follows:\<newline>''
   @ lit ''\<newline>''
   @ lit ''    ---\<newline>''
   @ lit ''    **Description 1:**\<newline>''
   @ lit ''    [Generated Description 1 here]\<newline>''
   @ lit ''    \<newline>''
   @ lit ''    **Hashtags 1:** #[hashtag1], #[hashtag2], #[hashtag3], ...\<newline>''
   @ lit ''    ---\<newline>''
   @ lit ''\<newline>''
   @ lit ''    **Description 2:**\<newline>''
   @ lit ''    [Generated Description 2 here]\<newline>''
   @ lit ''    \<newline>''
   @ lit ''    **Hashtags 2:** #[hashtag1], #[hashtag2], #[hashtag3], ...\<newline>''
   @ lit ''    ---\<newline>''
   @ lit ''    ''"

definition prompt_intro :: pystr where
  "prompt_intro =
     lit ''\<newline>''
   @ lit ''    You are an expert product marketer and e-commerce copywriter. Your task is to create engaging, unique, and SEO-friendly product descriptions\<newline>''
   @ lit ''    and a list of relevant hashtags for social media.\<newline>''
   @ lit ''\<newline>''
   @ lit ''    Here are the product details:\<newline>''"

definition build_prompt ::
  "pystr \<Rightarrow> pystr \<Rightarrow> pystr \<Rightarrow> pystr \<Rightarrow> pystr \<Rightarrow> pystr \<Rightarrow> int \<Rightarrow> pystr" where
  "build_prompt product_name product_category key_features target_audience tone_of_voice
       description_length num_descriptions =
     prompt_intro
   @ lit ''    - **Product Name:** '' @ product_name @ lit ''\<newline>''
   @ lit ''    - **Product Category:** '' @ product_category @ lit ''\<newline>''
   @ lit ''    - **Key Features:**\<newline>''
   @ lit ''    '' @ key_features @ lit ''\<newline>''
   @ lit ''    - **Target Audience:** '' @ target_audience @ lit ''\<newline>''
   @ lit ''    - **Tone of Voice:** '' @ tone_of_voice @ lit ''\<newline>''
   @ lit ''    - **Desired Description Length:** ''
       @ actual_description_length description_length @ lit ''\<newline>''
   @ lit ''\<newline>''
   @ lit ''    Please generate '' @ str_int num_descriptions
       @ lit '' distinct product description(s) that highlight the product'' @ [39]
       @ lit ''s benefits,\<newline>''
   @ lit ''    address the target audience'' @ [39]
       @ lit ''s needs, and resonate with the specified tone.\<newline>''
   @ lit ''    Each description should be approximately ''
       @ actual_description_length description_length @ lit '' long.\<newline>''
   @ lit ''    \<newline>''
   @ lit ''    After each description, generate a comma-separated list of at least 10 relevant hashtags for social media,\<newline>''
   @ lit ''    starting with '' @ [39] @ lit ''#'' @ [39] @ lit ''.\<newline>''
   @ lit ''\<newline>''
   @ format_instructions"

text \<open>
  Two observations on a built prompt. Its format instructions are its last characters, as
  many as \<open>format_instructions\<close> has. The number of labelled description/hashtag block
  pairs of a text is the number of its description labels, when it has as many hashtag
  labels.
\<close>

definition format_part :: "pystr \<Rightarrow> pystr" where
  "format_part prompt = drop (length prompt - length format_instructions) prompt"

definition labelled_pairs :: "pystr \<Rightarrow> nat option" where
  "labelled_pairs s =
     (let d = count_occurrences (lit ''**Description '') s;
          h = count_occurrences (lit ''**Hashtags '') s
      in if d = h then Some d else None)"

section \<open>The completion client (lines 25 and 75 to 86)\<close>

text \<open>
  One request to the chat-completion endpoint. \<open>client.chat.completions.create\<close> is the
  provider's: it is a parameter of the model, a function from the request to either the text
  of the exception it raises (\<open>Inl\<close>) or the message contents of the choices it returns.
  \<open>choices[0]\<close> of an empty list raises \<open>IndexError\<close>, inside \<open>generate_content\<close>.
  Exceptions are kept as the text \<open>str(e)\<close> that the handlers print.
\<close>

record request =
  messages :: "(pystr \<times> pystr) list"
  model :: pystr
  temperature_tenths :: nat
  max_tokens :: int

type_synonym completions = "request \<Rightarrow> pystr + pystr list"

definition GROQ_MODEL :: pystr where
  "GROQ_MODEL = lit ''llama-3.1-8b-instant''"

text \<open>The sampling temperature \<open>0.8\<close> of line 83 is kept in tenths.\<close>

definition chat_request :: "pystr \<Rightarrow> request" where
  "chat_request prompt =
     \<lparr>messages =
        [(lit ''system'',
          lit ''You are a helpful, creative, and experienced product marketer and e-commerce copywriter.''),
         (lit ''user'', prompt)],
      model = GROQ_MODEL,
      temperature_tenths = 8,
      max_tokens = 2048\<rparr>"

text \<open>
  \<open>generate_content\<close> returns the requests it sent (always exactly one) beside its
  result, so that the network calls of a run can be counted.
\<close>

definition generate_content ::
  "completions \<Rightarrow> pystr \<Rightarrow> pystr \<Rightarrow> pystr \<Rightarrow> pystr \<Rightarrow> pystr \<Rightarrow> pystr \<Rightarrow> int
     \<Rightarrow> request list \<times> (pystr + pystr)" where
  "generate_content create product_name product_category key_features target_audience
       tone_of_voice description_length num_descriptions =
     (let req = chat_request
            (build_prompt product_name product_category key_features target_audience
               tone_of_voice description_length num_descriptions)
      in ([req],
          case create req of
            Inl e \<Rightarrow> Inl e
          | Inr choices \<Rightarrow>
              (case choices of
                 [] \<Rightarrow> Inl (lit ''list index out of range'')
               | content # _ \<Rightarrow> Inr content)))"

section \<open>UTF-8\<close>

text \<open>
  \<open>str.encode("utf-8")\<close>: one to four bytes for each code point; a surrogate
  (\<open>U+D800\<close> to \<open>U+DFFF\<close>) raises \<open>UnicodeEncodeError\<close>, which is \<open>None\<close> here.
\<close>

type_synonym byte = "8 word"

definition utf8_char :: "nat \<Rightarrow> byte list option" where
  "utf8_char c =
     (if c < 0x80 then Some [of_nat c]
      else if c < 0x800 then Some [of_nat (0xC0 + c div 64), of_nat (0x80 + c mod 64)]
      else if c < 0x10000 then
        (if 0xD800 \<le> c \<and> c \<le> 0xDFFF then None
         else Some [of_nat (0xE0 + c div 4096), of_nat (0x80 + c div 64 mod 64),
                    of_nat (0x80 + c mod 64)])
      else Some [of_nat (0xF0 + c div 262144), of_nat (0x80 + c div 4096 mod 64),
                 of_nat (0x80 + c div 64 mod 64), of_nat (0x80 + c mod 64)])"

fun encode_utf8 :: "pystr \<Rightarrow> byte list option" where
  "encode_utf8 [] = Some []"
| "encode_utf8 (c # cs) =
     (case utf8_char c of
        None \<Rightarrow> None
      | Some bs \<Rightarrow> (case encode_utf8 cs of None \<Rightarrow> None | Some rest \<Rightarrow> Some (bs @ rest)))"

section \<open>The page script (lines 1 to 187)\<close>

text \<open>
  Streamlit runs the whole script again at every interaction. One run reads the
  environment, the current values of the input widgets, which button (if any) was clicked
  to cause the run, and the session state left by the run before; it leaves a session state,
  what it put on the screen, and the requests it sent. Of the session state only the two
  keys the script uses are kept. Calls that draw constant decoration (page title, dividers,
  columns, spinner, footer) are left out of the screen.
\<close>

record form =
  product_name :: pystr
  product_category :: pystr
  key_features :: pystr
  target_audience :: pystr
  tone_of_voice :: pystr
  description_length :: pystr

datatype click = NoClick | Generate | Regenerate | Download

record session_state =
  generated_output :: "pystr option"
  product_name_for_download :: "pystr option"

record download =
  label :: pystr
  data :: "byte list"
  file_name :: pystr
  mime :: pystr

datatype element =
    Error pystr
  | Warning pystr
  | Subheader pystr
  | Markdown pystr
  | Success pystr
  | InputForm
  | RegenerateButton
  | DownloadButton download
  | Uncaught pystr

record outcome =
  session :: session_state
  screen :: "element list"
  calls :: "request list"

text \<open>Lines 135 to 153: the handler of the generate button.\<close>

definition on_generate :: "completions \<Rightarrow> form \<Rightarrow> session_state \<Rightarrow> outcome" where
  "on_generate create f st =
     (if product_name f = [] \<or> key_features f = [] then
        \<lparr>session = st,
         screen = [Warning (lit ''Please provide at least a Product Name and Key Features to generate content.'')],
         calls = []\<rparr>
      else
        (case generate_content create (product_name f) (product_category f) (key_features f)
                (target_audience f) (tone_of_voice f) (description_length f) 2 of
           (reqs, Inr out) \<Rightarrow>
             \<lparr>session = st\<lparr>generated_output := Some out,
                             product_name_for_download := Some (product_name f)\<rparr>,
              screen = [Subheader (0x2728 # lit '' Your Generated Content''),
                        Markdown out,
                        Success (lit ''Content generated successfully!'')],
              calls = reqs\<rparr>
         | (reqs, Inl e) \<Rightarrow>
             \<lparr>session = st,
              screen = [Error (lit ''An error occurred during API call: '' @ e),
                        Warning (lit ''Please check your Groq API key and try again. You might also have reached your API rate limit or usage limits.'')],
              calls = reqs\<rparr>))"

text \<open>Lines 160 to 172: the handler of the regenerate button.\<close>

definition on_regenerate :: "completions \<Rightarrow> form \<Rightarrow> session_state \<Rightarrow> outcome" where
  "on_regenerate create f st =
     (case generate_content create (product_name f) (product_category f) (key_features f)
             (target_audience f) (tone_of_voice f) (description_length f) 2 of
        (reqs, Inr out) \<Rightarrow>
          \<lparr>session = st\<lparr>generated_output := Some out\<rparr>,
           screen = [Subheader (0x2728 # lit '' Your Regenerated Content''),
                     Markdown out,
                     Success (lit ''Content regenerated successfully!'')],
           calls = reqs\<rparr>
      | (reqs, Inl e) \<Rightarrow>
          \<lparr>session = st,
           screen = [Error (lit ''An error occurred during regeneration: '' @ e),
                     Warning (lit ''Please check your Groq API key and try again.'')],
           calls = reqs\<rparr>)"

text \<open>
  Lines 176 to 183: the download button. The file name is built from
  \<open>st.session_state.get('product_name_for_download', 'product')\<close>. An output that
  \<open>encode\<close> rejects raises outside every \<open>try\<close>: the run ends there with the
  exception on the screen, as it would for a missing \<open>generated_output\<close> key.
\<close>

definition download_file_name :: "session_state \<Rightarrow> pystr" where
  "download_file_name st =
     (case product_name_for_download st of Some n \<Rightarrow> n | None \<Rightarrow> lit ''product'')
     @ lit ''_descriptions_hashtags.txt''"

definition download_button :: "session_state \<Rightarrow> pystr \<Rightarrow> element" where
  "download_button st out =
     (case encode_utf8 out of
        None \<Rightarrow> Uncaught (lit ''UnicodeEncodeError'')
      | Some bytes \<Rightarrow>
          DownloadButton
            \<lparr>label = [0x2B07, 0xFE0F] @ lit '' Download Content'',
             data = bytes,
             file_name = download_file_name st,
             mime = lit ''text/plain''\<rparr>)"

text \<open>
  Lines 156 to 183: the two buttons are drawn only when the session holds a non-empty
  output; the regenerate handler runs when its button caused this run.
\<close>

definition regenerate_and_download ::
  "completions \<Rightarrow> form \<Rightarrow> click \<Rightarrow> session_state \<Rightarrow> outcome" where
  "regenerate_and_download create f ev st =
     (case generated_output st of
        None \<Rightarrow> \<lparr>session = st, screen = [], calls = []\<rparr>
      | Some shown \<Rightarrow>
          if shown = [] then \<lparr>session = st, screen = [], calls = []\<rparr>
          else
            (let r = (if ev = Regenerate then on_regenerate create f st
                      else \<lparr>session = st, screen = [], calls = []\<rparr>);
                 st' = session r
             in (case generated_output st' of
                   None \<Rightarrow>
                     r\<lparr>screen := RegenerateButton # screen r @ [Uncaught (lit ''KeyError'')]\<rparr>
                 | Some out \<Rightarrow>
                     r\<lparr>screen := RegenerateButton # screen r @ [download_button st' out]\<rparr>)))"

text \<open>Lines 99 to 183, run once a client exists.\<close>

definition page :: "completions \<Rightarrow> form \<Rightarrow> click \<Rightarrow> session_state \<Rightarrow> outcome" where
  "page create f ev st =
     (let g = (if ev = Generate then on_generate create f st
               else \<lparr>session = st, screen = [], calls = []\<rparr>);
          r = regenerate_and_download create f ev (session g)
      in \<lparr>session = session r,
          screen = InputForm # screen g @ screen r,
          calls = calls g @ calls r\<rparr>)"

text \<open>
  Lines 10 to 20, then the page. \<open>env_key\<close> is \<open>os.getenv("GROQ_API_KEY")\<close> after
  \<open>load_dotenv()\<close>; \<open>Groq\<close> is the provider's constructor, which gives the client's
  \<open>create\<close> or raises. \<open>st.stop()\<close> ends the run.
\<close>

definition script ::
  "pystr option \<Rightarrow> (pystr \<Rightarrow> pystr + completions) \<Rightarrow> form \<Rightarrow> click \<Rightarrow> session_state
     \<Rightarrow> outcome" where
  "script env_key Groq f ev st =
     (case env_key of
        None \<Rightarrow>
          \<lparr>session = st,
           screen = [Error (lit ''Groq API key not found. Please set it in a '' @ [39]
                      @ lit ''.env'' @ [39]
                      @ lit '' file or as an environment variable (GROQ_API_KEY).'')],
           calls = []\<rparr>
      | Some groq_api_key \<Rightarrow>
          if groq_api_key = [] then
            \<lparr>session = st,
             screen = [Error (lit ''Groq API key not found. Please set it in a '' @ [39]
                        @ lit ''.env'' @ [39]
                        @ lit '' file or as an environment variable (GROQ_API_KEY).'')],
             calls = []\<rparr>
          else
            (case Groq groq_api_key of
               Inl e \<Rightarrow>
                 \<lparr>session = st,
                  screen = [Error (lit ''Failed to initialize Groq client: '' @ e)],
                  calls = []\<rparr>
             | Inr create \<Rightarrow> page create f ev st))"

text \<open>
  A sequence of runs of one browser session: each run has its own environment, provider,
  widget values and click, and starts from the session state the run before left.
\<close>

record rerun =
  env_key :: "pystr option"
  provider :: "pystr \<Rightarrow> pystr + completions"
  widgets :: form
  clicked :: click

definition run_once :: "session_state \<Rightarrow> rerun \<Rightarrow> outcome" where
  "run_once st r = script (env_key r) (provider r) (widgets r) (clicked r) st"

fun run_all :: "session_state \<Rightarrow> rerun list \<Rightarrow> session_state" where
  "run_all st [] = st"
| "run_all st (r # rs) = run_all (session (run_once st r)) rs"

definition new_session :: session_state where
  "new_session = \<lparr>generated_output = None, product_name_for_download = None\<rparr>"

text \<open>The requests of a sequence of runs, in the order they were sent.\<close>

fun all_calls :: "session_state \<Rightarrow> rerun list \<Rightarrow> request list" where
  "all_calls st [] = []"
| "all_calls st (r # rs) = calls (run_once st r) @ all_calls (session (run_once st r)) rs"

text \<open>The call both handlers make: \<open>generate_content\<close> on the six widget values.\<close>

abbreviation completion_of :: "completions \<Rightarrow> form \<Rightarrow> request list \<times> (pystr + pystr)" where
  "completion_of create f \<equiv>
     generate_content create (product_name f) (product_category f) (key_features f)
       (target_audience f) (tone_of_voice f) (description_length f) 2"

text \<open>
  The product name a session should hold for the download, read off the history of its
  runs: a run is a successful generate when the generate button caused it, the credential
  and the client are there, name and features are filled in, and the completion returned a
  text; the name is that of the latest such run.
\<close>

definition generate_succeeds :: "rerun \<Rightarrow> bool" where
  "generate_succeeds r =
     (clicked r = Generate \<and>
      (case env_key r of
         None \<Rightarrow> False
       | Some key \<Rightarrow>
           key \<noteq> [] \<and>
           (case provider r key of
              Inl e \<Rightarrow> False
            | Inr create \<Rightarrow>
                product_name (widgets r) \<noteq> [] \<and> key_features (widgets r) \<noteq> [] \<and>
                (case snd (completion_of create (widgets r)) of
                   Inl e \<Rightarrow> False
                 | Inr out \<Rightarrow> True))))"

fun last_generated_name :: "rerun list \<Rightarrow> pystr option" where
  "last_generated_name [] = None"
| "last_generated_name (r # rs) =
     (case last_generated_name rs of
        Some n \<Rightarrow> Some n
      | None \<Rightarrow> if generate_succeeds r then Some (product_name (widgets r)) else None)"

section \<open>Sample inputs\<close>

text \<open>
  The brief of the specification's example, the same brief with another product name, a
  provider whose client always answers with one choice, and one whose client always raises.
\<close>

definition example_brief :: form where
  "example_brief =
     \<lparr>product_name = lit ''Test Mug'',
      product_category = lit ''Kitchen'',
      key_features = lit ''- Keeps drinks hot'',
      target_audience = lit ''Office workers'',
      tone_of_voice = lit ''Friendly'',
      description_length = lit ''Short (1 paragraph)''\<rparr>"

definition edited_brief :: form where
  "edited_brief = example_brief\<lparr>product_name := lit ''Desk Lamp''\<rparr>"

definition answering :: "pystr \<Rightarrow> pystr \<Rightarrow> pystr + completions" where
  "answering reply key = Inr (\<lambda>req. Inr [reply])"

definition raising :: "pystr \<Rightarrow> pystr \<Rightarrow> pystr + completions" where
  "raising e key = Inr (\<lambda>req. Inl e)"

section \<open>Facts about text\<close>

lemma sublist_later: "sublist xs ys \<Longrightarrow> sublist xs (zs @ ys)"
  by (metis sublist_append)

lemma lit_eq_iff [simp]: "lit s = lit t \<longleftrightarrow> s = t"
  by (simp add: lit_def inj_map_eq_map inj_on_def)

lemma paragraph_map_cases:
  "paragraph_map d =
     (if d = lit ''Short (1 paragraph)'' then Some (lit ''1 paragraph'')
      else if d = lit ''Medium (2 paragraphs)'' then Some (lit ''2 paragraphs'')
      else if d = lit ''Long (3 paragraphs)'' then Some (lit ''3 paragraphs'')
      else None)"
  by (simp add: paragraph_map_def)

lemma length_phrase_in_prompt:
  "sublist (actual_description_length d) (build_prompt n c f a t d k)"
  unfolding build_prompt_def by (simp add: sublist_later)

lemma sublist_of_prefix: "prefix xs ys \<Longrightarrow> sublist xs ys"
  by (auto simp: prefix_def)

lemma format_instructions_last:
  "suffix format_instructions (build_prompt n c f a t d k)"
  unfolding build_prompt_def by (simp add: suffix_appendI suffix_ConsI)

lemma format_part_build_prompt:
  "format_part (build_prompt n c f a t d k) = format_instructions"
proof -
  from format_instructions_last [of n c f a t d k]
  obtain body where "build_prompt n c f a t d k = body @ format_instructions"
    by (auto simp: suffix_def)
  then show ?thesis by (simp add: format_part_def)
qed

lemma description_labels:
  "count_occurrences (lit ''**Description '') format_instructions = 2"
  by code_simp

lemma hashtag_labels:
  "count_occurrences (lit ''**Hashtags '') format_instructions = 2"
  by code_simp

lemma labelled_pairs_format: "labelled_pairs format_instructions = Some 2"
  by (simp add: labelled_pairs_def description_labels hashtag_labels)

lemma labels_numbered:
  "sublist (lit ''**Description 1:**'') format_instructions"
  "sublist (lit ''**Hashtags 1:**'') format_instructions"
  "sublist (lit ''**Description 2:**'') format_instructions"
  "sublist (lit ''**Hashtags 2:**'') format_instructions"
  by code_simp+

lemma request_sentence:
  "sublist (lit ''    Please generate '' @ str_int k
            @ lit '' distinct product description(s) that highlight the product'')
      (build_prompt n c f a t d k)"
  unfolding build_prompt_def by (simp add: sublist_later sublist_of_prefix sublist_Cons_right)

lemma short_phrase:
  "actual_description_length (lit ''Short (1 paragraph)'') = lit ''1 paragraph''"
  by (simp add: actual_description_length_def paragraph_map_cases)

section \<open>Facts about the page script\<close>

lemma lit_nonempty [simp]: "lit s = [] \<longleftrightarrow> s = []"
  by (simp add: lit_def)

lemma generate_content_calls:
  "fst (generate_content create n c fe a t d k) = [chat_request (build_prompt n c fe a t d k)]"
  by (simp add: generate_content_def Let_def)

lemma generate_content_result:
  "snd (generate_content create n c fe a t d k) =
     (case create (chat_request (build_prompt n c fe a t d k)) of
        Inl e \<Rightarrow> Inl e
      | Inr choices \<Rightarrow>
          (case choices of [] \<Rightarrow> Inl (lit ''list index out of range'') | x # _ \<Rightarrow> Inr x))"
  by (simp add: generate_content_def Let_def)

lemma script_with_client:
  "key \<noteq> [] \<Longrightarrow> Groq key = Inr create \<Longrightarrow>
   script (Some key) Groq f ev st = page create f ev st"
  by (simp add: script_def)

lemma script_without_key:
  "env = None \<or> env = Some [] \<Longrightarrow>
   script env Groq f ev st =
     \<lparr>session = st,
      screen = [Error (lit ''Groq API key not found. Please set it in a '' @ [39]
                 @ lit ''.env'' @ [39]
                 @ lit '' file or as an environment variable (GROQ_API_KEY).'')],
      calls = []\<rparr>"
  by (auto simp: script_def)

lemma runs_without_key:
  "\<forall>r\<in>set rs. env_key r = None \<or> env_key r = Some [] \<Longrightarrow>
   all_calls st rs = [] \<and> run_all st rs = st"
  by (induction rs arbitrary: st) (auto simp: run_once_def script_without_key)

text \<open>What the two handlers do, by the outcome of the completion.\<close>

lemma on_generate_cases:
  "on_generate create f st =
     (if product_name f = [] \<or> key_features f = [] then
        \<lparr>session = st,
         screen = [Warning (lit ''Please provide at least a Product Name and Key Features to generate content.'')],
         calls = []\<rparr>
      else case snd (completion_of create f) of
        Inr out \<Rightarrow>
             \<lparr>session = st\<lparr>generated_output := Some out,
                             product_name_for_download := Some (product_name f)\<rparr>,
              screen = [Subheader (0x2728 # lit '' Your Generated Content''),
                        Markdown out,
                        Success (lit ''Content generated successfully!'')],
              calls = fst (completion_of create f)\<rparr>
      | Inl e \<Rightarrow>
             \<lparr>session = st,
              screen = [Error (lit ''An error occurred during API call: '' @ e),
                        Warning (lit ''Please check your Groq API key and try again. You might also have reached your API rate limit or usage limits.'')],
              calls = fst (completion_of create f)\<rparr>)"
  by (auto simp: on_generate_def split: prod.splits sum.splits)

lemma on_regenerate_cases:
  "on_regenerate create f st =
     (case snd (completion_of create f) of
        Inr out \<Rightarrow>
          \<lparr>session = st\<lparr>generated_output := Some out\<rparr>,
           screen = [Subheader (0x2728 # lit '' Your Regenerated Content''),
                     Markdown out,
                     Success (lit ''Content regenerated successfully!'')],
           calls = fst (completion_of create f)\<rparr>
      | Inl e \<Rightarrow>
          \<lparr>session = st,
           screen = [Error (lit ''An error occurred during regeneration: '' @ e),
                     Warning (lit ''Please check your Groq API key and try again.'')],
           calls = fst (completion_of create f)\<rparr>)"
  by (auto simp: on_regenerate_def split: prod.splits sum.splits)

lemma on_generate_failed:
  assumes "snd (completion_of create f) = Inl e"
  shows "session (on_generate create f st) = st"
  using assms by (auto simp: on_generate_def split: prod.splits sum.splits)

lemma on_regenerate_failed:
  assumes "snd (completion_of create f) = Inl e"
  shows "on_regenerate create f st =
     \<lparr>session = st,
      screen = [Error (lit ''An error occurred during regeneration: '' @ e),
                Warning (lit ''Please check your Groq API key and try again.'')],
      calls = fst (completion_of create f)\<rparr>"
  using assms by (auto simp: on_regenerate_def split: prod.splits sum.splits)

lemma on_generate_blank:
  "product_name f = [] \<or> key_features f = [] \<Longrightarrow>
   on_generate create f st =
     \<lparr>session = st,
      screen = [Warning (lit ''Please provide at least a Product Name and Key Features to generate content.'')],
      calls = []\<rparr>"
  by (auto simp: on_generate_def)

lemma regenerate_and_download_idle:
  "ev \<noteq> Regenerate \<Longrightarrow>
   calls (regenerate_and_download create f ev st) = []
   \<and> session (regenerate_and_download create f ev st) = st"
  by (auto simp: regenerate_and_download_def Let_def split: option.splits)

lemma regenerate_and_download_session:
  "session (regenerate_and_download create f ev st) =
     (if ev = Regenerate \<and> (\<exists>r. generated_output st = Some r \<and> r \<noteq> [])
      then session (on_regenerate create f st) else st)"
  by (auto simp: regenerate_and_download_def Let_def split: option.splits)

lemma page_session:
  "session (page create f ev st) =
     (if ev = Generate then session (on_generate create f st)
      else if ev = Regenerate \<and> (\<exists>r. generated_output st = Some r \<and> r \<noteq> [])
      then session (on_regenerate create f st) else st)"
  by (auto simp: page_def Let_def regenerate_and_download_session)

lemma script_session:
  "session (script env Groq f ev st) = st
   \<or> (\<exists>key create. env = Some key \<and> key \<noteq> [] \<and> Groq key = Inr create
        \<and> session (script env Groq f ev st) = session (page create f ev st))"
  by (auto simp: script_def split: option.splits sum.splits)

text \<open>Where a download button comes from, and what it holds.\<close>

lemma no_download_in_handlers:
  "DownloadButton d \<notin> set (screen (on_generate create f st))"
  "DownloadButton d \<notin> set (screen (on_regenerate create f st))"
  by (auto simp: on_generate_cases on_regenerate_cases split: sum.splits)

lemma download_button_eq:
  "download_button st out = DownloadButton d \<longleftrightarrow>
     encode_utf8 out = Some (data d) \<and> file_name d = download_file_name st
     \<and> mime d = lit ''text/plain'' \<and> label d = [0x2B07, 0xFE0F] @ lit '' Download Content''"
  by (cases d) (auto simp: download_button_def split: option.splits)

lemma regenerate_and_download_button:
  "DownloadButton d \<in> set (screen (regenerate_and_download create f ev st)) \<longleftrightarrow>
     (\<exists>shown out. generated_output st = Some shown \<and> shown \<noteq> []
        \<and> generated_output (session (regenerate_and_download create f ev st)) = Some out
        \<and> download_button (session (regenerate_and_download create f ev st)) out
            = DownloadButton d)"
  by (auto simp: regenerate_and_download_def Let_def no_download_in_handlers
      split: option.splits)

lemma page_button:
  "DownloadButton d \<in> set (screen (page create f ev st)) \<longleftrightarrow>
     (\<exists>shown out.
        generated_output (session (if ev = Generate then on_generate create f st
           else \<lparr>session = st, screen = [], calls = []\<rparr>)) = Some shown \<and> shown \<noteq> []
        \<and> generated_output (session (page create f ev st)) = Some out
        \<and> download_button (session (page create f ev st)) out = DownloadButton d)"
  by (simp add: page_def Let_def no_download_in_handlers regenerate_and_download_button)

lemma no_download_without_client:
  "DownloadButton d \<in> set (screen (script env Groq f ev st)) \<Longrightarrow>
   \<exists>key create. env = Some key \<and> key \<noteq> [] \<and> Groq key = Inr create"
  by (auto simp: script_def split: option.splits if_splits sum.splits)

lemma page_button_shown:
  assumes "generated_output (session (page create f ev st)) = Some out" and "out \<noteq> []"
    and "encode_utf8 out = Some bs"
  shows "\<exists>d. DownloadButton d \<in> set (screen (page create f ev st)) \<and> data d = bs"
proof -
  let ?d = "\<lparr>label = [0x2B07, 0xFE0F] @ lit '' Download Content'', data = bs,
             file_name = download_file_name (session (page create f ev st)),
             mime = lit ''text/plain''\<rparr>"
  have b: "download_button (session (page create f ev st)) out = DownloadButton ?d"
    using assms(3) by (simp add: download_button_def)
  have shown: "\<exists>shown. generated_output (session (if ev = Generate then on_generate create f st
           else \<lparr>session = st, screen = [], calls = []\<rparr>)) = Some shown \<and> shown \<noteq> []"
    using assms(1,2) by (auto simp: page_session split: if_splits)
  from shown assms(1) b have "DownloadButton ?d \<in> set (screen (page create f ev st))"
    unfolding page_button by blast
  then show ?thesis by (intro exI [of _ ?d]) simp
qed

text \<open>Where the stored product name comes from, and what keeps it.\<close>

lemma page_output_named:
  "generated_output st = None \<or> product_name_for_download st \<noteq> None \<Longrightarrow>
   generated_output (session (page create f ev st)) = None
   \<or> product_name_for_download (session (page create f ev st)) \<noteq> None"
  by (auto simp: page_session on_generate_cases on_regenerate_cases split: sum.splits)

lemma script_output_named:
  "generated_output st = None \<or> product_name_for_download st \<noteq> None \<Longrightarrow>
   generated_output (session (script env Groq f ev st)) = None
   \<or> product_name_for_download (session (script env Groq f ev st)) \<noteq> None"
  using script_session [of env Groq f ev st] page_output_named [of st _ f ev]
  by metis

lemma run_all_output_named:
  "generated_output st = None \<or> product_name_for_download st \<noteq> None \<Longrightarrow>
   generated_output (run_all st rs) = None
   \<or> product_name_for_download (run_all st rs) \<noteq> None"
proof (induction rs arbitrary: st)
  case Nil
  then show ?case by simp
next
  case (Cons r rs)
  from Cons.prems have "generated_output (session (run_once st r)) = None
    \<or> product_name_for_download (session (run_once st r)) \<noteq> None"
    unfolding run_once_def by (rule script_output_named)
  from Cons.IH [OF this] show ?case by simp
qed

lemma run_all_snoc: "run_all st (rs @ [r]) = session (run_once (run_all st rs) r)"
  by (induction rs arbitrary: st) simp_all

lemma page_stored_name:
  "product_name_for_download (session (page create f ev st)) =
     (if ev = Generate \<and> product_name f \<noteq> [] \<and> key_features f \<noteq> []
         \<and> (\<exists>out. snd (completion_of create f) = Inr out)
      then Some (product_name f) else product_name_for_download st)"
  by (auto simp: page_session on_generate_cases on_regenerate_cases split: sum.splits)

lemma run_once_stored_name:
  "product_name_for_download (session (run_once st r)) =
     (if generate_succeeds r then Some (product_name (widgets r))
      else product_name_for_download st)"
  by (auto simp: run_once_def script_def generate_succeeds_def page_stored_name
      split: option.splits sum.splits)

lemma run_all_stored_name:
  "product_name_for_download (run_all st rs) =
     (case last_generated_name rs of
        Some n \<Rightarrow> Some n
      | None \<Rightarrow> product_name_for_download st)"
  by (induction rs arbitrary: st) (auto simp: run_once_stored_name split: option.splits)

lemma page_regenerate_name:
  "ev \<noteq> Generate \<Longrightarrow>
   product_name_for_download (session (page create f ev st)) = product_name_for_download st"
  by (auto simp: page_session on_regenerate_cases split: sum.splits)

lemma script_regenerate_name:
  "ev \<noteq> Generate \<Longrightarrow>
   product_name_for_download (session (script env Groq f ev st)) = product_name_for_download st"
  using script_session [of env Groq f ev st] page_regenerate_name [of ev _ f st]
  by metis

lemma run_all_regenerate_name:
  "\<forall>r\<in>set rs. clicked r \<noteq> Generate \<Longrightarrow>
   product_name_for_download (run_all st rs) = product_name_for_download st"
  by (induction rs arbitrary: st) (simp_all add: run_once_def script_regenerate_name)

lemma generated_successfully:
  assumes "Success (lit ''Content generated successfully!'') \<in> set (screen (script env Groq f ev st))"
  shows "ev = Generate
    \<and> product_name_for_download (session (script env Groq f ev st)) = Some (product_name f)"
proof -
  from assms obtain key create where k: "env = Some key" "key \<noteq> []" "Groq key = Inr create"
    by (auto simp: script_def split: option.splits if_splits sum.splits)
  then have s: "script env Groq f ev st = page create f ev st"
    by (simp add: script_with_client)
  have r: "Success (lit ''Content generated successfully!'')
      \<notin> set (screen (regenerate_and_download create f ev st'))" for st'
    by (auto simp: regenerate_and_download_def Let_def on_regenerate_cases download_button_def
        split: option.splits sum.splits)
  from assms r have g: "ev = Generate"
    "Success (lit ''Content generated successfully!'') \<in> set (screen (on_generate create f st))"
    unfolding s by (auto simp: page_def Let_def split: if_splits)
  then have "product_name_for_download (session (on_generate create f st)) = Some (product_name f)"
    by (auto simp: on_generate_cases split: if_splits sum.splits)
  with g(1) have "product_name_for_download (session (page create f ev st)) = Some (product_name f)"
    by (simp add: page_session)
  with g(1) show ?thesis unfolding s by blast
qed

text \<open>One run evaluated: the example brief, generated in a new session.\<close>

lemma example_generate_run:
  "script (Some (lit ''gsk'')) (answering (lit ''Hi'')) example_brief Generate new_session =
     \<lparr>session = \<lparr>generated_output = Some (lit ''Hi''),
                 product_name_for_download = Some (lit ''Test Mug'')\<rparr>,
      screen = [InputForm,
                Subheader (0x2728 # lit '' Your Generated Content''),
                Markdown (lit ''Hi''),
                Success (lit ''Content generated successfully!''),
                RegenerateButton,
                DownloadButton
                  \<lparr>label = [0x2B07, 0xFE0F] @ lit '' Download Content'',
                   data = [72, 105],
                   file_name = lit ''Test Mug'' @ lit ''_descriptions_hashtags.txt'',
                   mime = lit ''text/plain''\<rparr>],
      calls = [chat_request (build_prompt (lit ''Test Mug'') (lit ''Kitchen'')
                 (lit ''- Keeps drinks hot'') (lit ''Office workers'') (lit ''Friendly'')
                 (lit ''Short (1 paragraph)'') 2)]\<rparr>"
  by (simp add: script_def answering_def page_def Let_def on_generate_cases
      generate_content_calls generate_content_result example_brief_def new_session_def
      regenerate_and_download_def download_button_def download_file_name_def)
    (simp add: lit_def utf8_char_def download_file_name_def)

lemma example_regenerate_run:
  "script (Some (lit ''gsk'')) (answering (lit ''Yo'')) edited_brief Regenerate
     \<lparr>generated_output = Some (lit ''Hi''),
      product_name_for_download = Some (lit ''Test Mug'')\<rparr> =
     \<lparr>session = \<lparr>generated_output = Some (lit ''Yo''),
                 product_name_for_download = Some (lit ''Test Mug'')\<rparr>,
      screen = [InputForm,
                RegenerateButton,
                Subheader (0x2728 # lit '' Your Regenerated Content''),
                Markdown (lit ''Yo''),
                Success (lit ''Content regenerated successfully!''),
                DownloadButton
                  \<lparr>label = [0x2B07, 0xFE0F] @ lit '' Download Content'',
                   data = [89, 111],
                   file_name = lit ''Test Mug'' @ lit ''_descriptions_hashtags.txt'',
                   mime = lit ''text/plain''\<rparr>],
      calls = [chat_request (build_prompt (lit ''Desk Lamp'') (lit ''Kitchen'')
                 (lit ''- Keeps drinks hot'') (lit ''Office workers'') (lit ''Friendly'')
                 (lit ''Short (1 paragraph)'') 2)]\<rparr>"
  by (simp add: script_def answering_def page_def Let_def on_regenerate_cases
      generate_content_calls generate_content_result edited_brief_def example_brief_def
      regenerate_and_download_def download_button_def download_file_name_def)
    (simp add: lit_def utf8_char_def download_file_name_def)

lemma example_idle_run:
  "script (Some (lit ''gsk'')) (answering (lit ''Yo'')) edited_brief NoClick
     \<lparr>generated_output = Some (lit ''Yo''),
      product_name_for_download = Some (lit ''Test Mug'')\<rparr> =
     \<lparr>session = \<lparr>generated_output = Some (lit ''Yo''),
                 product_name_for_download = Some (lit ''Test Mug'')\<rparr>,
      screen = [InputForm,
                RegenerateButton,
                DownloadButton
                  \<lparr>label = [0x2B07, 0xFE0F] @ lit '' Download Content'',
                   data = [89, 111],
                   file_name = lit ''Test Mug'' @ lit ''_descriptions_hashtags.txt'',
                   mime = lit ''text/plain''\<rparr>],
      calls = []\<rparr>"
  by (simp add: script_def answering_def page_def Let_def
      regenerate_and_download_def download_button_def download_file_name_def)
    (simp add: lit_def utf8_char_def download_file_name_def)

lemma example_second_generate_run:
  "script (Some (lit ''gsk'')) (answering (lit ''Yo'')) edited_brief Generate
     \<lparr>generated_output = Some (lit ''Hi''),
      product_name_for_download = Some (lit ''Test Mug'')\<rparr> =
     \<lparr>session = \<lparr>generated_output = Some (lit ''Yo''),
                 product_name_for_download = Some (lit ''Desk Lamp'')\<rparr>,
      screen = [InputForm,
                Subheader (0x2728 # lit '' Your Generated Content''),
                Markdown (lit ''Yo''),
                Success (lit ''Content generated successfully!''),
                RegenerateButton,
                DownloadButton
                  \<lparr>label = [0x2B07, 0xFE0F] @ lit '' Download Content'',
                   data = [89, 111],
                   file_name = lit ''Desk Lamp'' @ lit ''_descriptions_hashtags.txt'',
                   mime = lit ''text/plain''\<rparr>],
      calls = [chat_request (build_prompt (lit ''Desk Lamp'') (lit ''Kitchen'')
                 (lit ''- Keeps drinks hot'') (lit ''Office workers'') (lit ''Friendly'')
                 (lit ''Short (1 paragraph)'') 2)]\<rparr>"
  by (simp add: script_def answering_def page_def Let_def on_generate_cases
      generate_content_calls generate_content_result edited_brief_def example_brief_def
      regenerate_and_download_def download_button_def download_file_name_def)
    (simp add: lit_def utf8_char_def download_file_name_def)

lemma example_history_name:
  "last_generated_name
     [\<lparr>env_key = Some (lit ''gsk''), provider = answering (lit ''Hi''),
       widgets = example_brief, clicked = Generate\<rparr>,
      \<lparr>env_key = Some (lit ''gsk''), provider = answering (lit ''Yo''),
       widgets = edited_brief, clicked = Generate\<rparr>] = Some (lit ''Desk Lamp'')"
  by (simp add: generate_succeeds_def answering_def generate_content_result
      edited_brief_def example_brief_def)

lemma raising_fails:
  "snd (completion_of (\<lambda>req. Inl e) f) = Inl e"
  by (simp add: generate_content_result)

lemma example_brief_filled:
  "product_name example_brief \<noteq> []" "key_features example_brief \<noteq> []"
  by (simp_all add: example_brief_def)

lemma regenerate_sends_current_widgets:
  assumes "generated_output st = Some shown" and "shown \<noteq> []"
  shows "calls (page create f Regenerate st) =
     [chat_request (build_prompt (product_name f) (product_category f) (key_features f)
        (target_audience f) (tone_of_voice f) (description_length f) 2)]"
  using assms
  by (auto simp: page_def Let_def regenerate_and_download_def on_regenerate_cases
      generate_content_calls split: option.splits sum.splits)

lemma prompts_differ:
  "build_prompt (lit ''Desk Lamp'') c f a t d k \<noteq> build_prompt (lit ''Test Mug'') c f a t d k"
  by (simp add: build_prompt_def)

section \<open>The prompt builder: length phrase and brief fields\<close>



text \<open>
  C7. Whatever the brief, the product name, the category, the feature text and the
  audience occur in the built prompt as they were given: each is a contiguous part of it.
\<close>

theorem brief_fields_verbatim:
  "sublist n (build_prompt n c f a t d k)
   \<and> sublist c (build_prompt n c f a t d k)
   \<and> sublist f (build_prompt n c f a t d k)
   \<and> sublist a (build_prompt n c f a t d k)"
  unfolding build_prompt_def by (simp add: sublist_later)

section \<open>The prompt builder: the requested number of variants\<close>

text \<open>
  C1, as stated: for every variant count N the format instructions of the built prompt
  ask for exactly N labelled description/hashtag block pairs. This fails for the example
  brief with N = 3: the format instructions of that prompt do not hold 3 pairs.
\<close>

theorem format_pairs_counterexample:
  "labelled_pairs
     (format_part
        (build_prompt (lit ''Test Mug'') (lit ''Kitchen'') (lit ''- Keeps drinks hot'')
           (lit ''Office workers'') (lit ''Friendly'') (lit ''Short (1 paragraph)'') 3))
   \<noteq> Some 3"
  by (simp add: format_part_build_prompt labelled_pairs_format)

text \<open>
  C1, amended: whatever the variant count N, the format instructions of the built prompt
  are the same fixed template, which holds exactly 2 labelled description/hashtag block
  pairs, numbered 1 and 2; N itself appears only in the sentence "Please generate N
  distinct product description(s)". So the format asks for exactly N pairs when N = 2,
  the value the page passes; and for the example brief with N = 2 the prompt contains
  "1 paragraph" and its format instructions hold exactly 2 pairs.
\<close>

theorem format_template_has_two_pairs:
  "labelled_pairs (format_part (build_prompt n c f a t d N)) = Some 2
   \<and> sublist (lit ''**Description 1:**'') (format_part (build_prompt n c f a t d N))
   \<and> sublist (lit ''**Hashtags 1:**'') (format_part (build_prompt n c f a t d N))
   \<and> sublist (lit ''**Description 2:**'') (format_part (build_prompt n c f a t d N))
   \<and> sublist (lit ''**Hashtags 2:**'') (format_part (build_prompt n c f a t d N))
   \<and> sublist (lit ''    Please generate '' @ str_int N
               @ lit '' distinct product description(s) that highlight the product'')
        (build_prompt n c f a t d N)
   \<and> sublist (lit ''1 paragraph'')
        (build_prompt (lit ''Test Mug'') (lit ''Kitchen'') (lit ''- Keeps drinks hot'')
           (lit ''Office workers'') (lit ''Friendly'') (lit ''Short (1 paragraph)'') 2)
   \<and> labelled_pairs
        (format_part
           (build_prompt (lit ''Test Mug'') (lit ''Kitchen'') (lit ''- Keeps drinks hot'')
              (lit ''Office workers'') (lit ''Friendly'') (lit ''Short (1 paragraph)'') 2))
      = Some (nat 2)"
proof -
  have example: "sublist (lit ''1 paragraph'')
        (build_prompt (lit ''Test Mug'') (lit ''Kitchen'') (lit ''- Keeps drinks hot'')
           (lit ''Office workers'') (lit ''Friendly'') (lit ''Short (1 paragraph)'') 2)"
    using length_phrase_in_prompt [of "lit ''Short (1 paragraph)''" "lit ''Test Mug''"
        "lit ''Kitchen''" "lit ''- Keeps drinks hot''" "lit ''Office workers''"
        "lit ''Friendly''" 2]
    by (simp only: short_phrase)
  show ?thesis
    using example request_sentence [of N n c f a t d]
    by (simp add: format_part_build_prompt labelled_pairs_format labels_numbered)
qed

section \<open>Errors: the completion, the credential, blank fields\<close>

text \<open>
  C4. When the completion fails during generate or regenerate (the call raises, or it
  returns no choice), the run leaves the session state as it found it, so the last result
  keeps its value or stays absent, and the handler that ran shows the error message.
\<close>

theorem failed_completion_keeps_last_result:
  assumes "key \<noteq> []" and "Groq key = Inr create"
    and "snd (completion_of create f) = Inl e"
  shows "session (script (Some key) Groq f ev st) = st
    \<and> (ev = Generate \<and> product_name f \<noteq> [] \<and> key_features f \<noteq> []
         \<longrightarrow> Error (lit ''An error occurred during API call: '' @ e)
               \<in> set (screen (script (Some key) Groq f ev st)))
    \<and> (ev = Regenerate \<and> (\<exists>r. generated_output st = Some r \<and> r \<noteq> [])
         \<longrightarrow> Error (lit ''An error occurred during regeneration: '' @ e)
               \<in> set (screen (script (Some key) Groq f ev st)))"
proof -
  have s: "script (Some key) Groq f ev st = page create f ev st"
    using assms(1,2) by (simp add: script_def)
  have unchanged: "session (page create f ev st) = st"
    using assms(3) by (simp add: page_session on_generate_failed on_regenerate_failed)
  have gen: "Error (lit ''An error occurred during API call: '' @ e)
               \<in> set (screen (page create f ev st))"
    if "ev = Generate" "product_name f \<noteq> []" "key_features f \<noteq> []"
    using that assms(3)
    by (auto simp: page_def Let_def on_generate_def split: prod.splits sum.splits)
  have regen: "Error (lit ''An error occurred during regeneration: '' @ e)
               \<in> set (screen (page create f ev st))"
    if "ev = Regenerate" "generated_output st = Some r" "r \<noteq> []" for r
    using that assms(3)
    by (auto simp: page_def Let_def regenerate_and_download_def on_regenerate_failed
        split: option.splits)
  from s unchanged gen regen show ?thesis by auto
qed

theorem failed_completion_keeps_last_result_witness:
  "session (script (Some (lit ''gsk'')) (raising (lit ''rate limit'')) example_brief Generate
      new_session) = new_session
   \<and> Error (lit ''An error occurred during API call: '' @ lit ''rate limit'')
       \<in> set (screen (script (Some (lit ''gsk'')) (raising (lit ''rate limit''))
                 example_brief Generate new_session))
   \<and> session (script (Some (lit ''gsk'')) (raising (lit ''rate limit'')) example_brief
        Regenerate
        \<lparr>generated_output = Some (lit ''Hi''),
         product_name_for_download = Some (lit ''Test Mug'')\<rparr>)
       = \<lparr>generated_output = Some (lit ''Hi''),
          product_name_for_download = Some (lit ''Test Mug'')\<rparr>
   \<and> Error (lit ''An error occurred during regeneration: '' @ lit ''rate limit'')
       \<in> set (screen (script (Some (lit ''gsk'')) (raising (lit ''rate limit''))
                 example_brief Regenerate
                 \<lparr>generated_output = Some (lit ''Hi''),
                  product_name_for_download = Some (lit ''Test Mug'')\<rparr>))"
proof -
  have key: "lit ''gsk'' \<noteq> []" by simp
  have client: "raising (lit ''rate limit'') (lit ''gsk'') = Inr (\<lambda>req. Inl (lit ''rate limit''))"
    by (simp add: raising_def)
  note fails = raising_fails [of "lit ''rate limit''" example_brief]
  from key client fails
    failed_completion_keeps_last_result [of "lit ''gsk''" "raising (lit ''rate limit'')"
      "\<lambda>req. Inl (lit ''rate limit'')" example_brief "lit ''rate limit''" Generate
      new_session]
    failed_completion_keeps_last_result [of "lit ''gsk''" "raising (lit ''rate limit'')"
      "\<lambda>req. Inl (lit ''rate limit'')" example_brief "lit ''rate limit''" Regenerate
      "\<lparr>generated_output = Some (lit ''Hi''),
        product_name_for_download = Some (lit ''Test Mug'')\<rparr>"]
  show ?thesis
    by (simp add: example_brief_filled)
qed

text \<open>
  C5. Without a credential (unset or empty) a run shows the configuration error and
  nothing else, sends no request and leaves the session state alone; over any sequence of
  such runs no request is ever sent.
\<close>

theorem missing_credential_halts:
  "(env = None \<or> env = Some [] \<longrightarrow>
      script env Groq f ev st =
        \<lparr>session = st,
         screen = [Error (lit ''Groq API key not found. Please set it in a '' @ [39]
                    @ lit ''.env'' @ [39]
                    @ lit '' file or as an environment variable (GROQ_API_KEY).'')],
         calls = []\<rparr>)
   \<and> ((\<forall>r\<in>set rs. env_key r = None \<or> env_key r = Some []) \<longrightarrow>
        all_calls st rs = [] \<and> run_all st rs = st)"
  using script_without_key [of env Groq f ev st] runs_without_key [of rs st] by blast

theorem missing_credential_halts_witness:
  "script None (answering (lit ''Hi'')) example_brief Generate new_session =
        \<lparr>session = new_session,
         screen = [Error (lit ''Groq API key not found. Please set it in a '' @ [39]
                    @ lit ''.env'' @ [39]
                    @ lit '' file or as an environment variable (GROQ_API_KEY).'')],
         calls = []\<rparr>
   \<and> all_calls new_session
        [\<lparr>env_key = None, provider = answering (lit ''Hi''), widgets = example_brief,
          clicked = Generate\<rparr>,
         \<lparr>env_key = Some [], provider = answering (lit ''Hi''), widgets = example_brief,
          clicked = Regenerate\<rparr>] = []
   \<and> run_all new_session
        [\<lparr>env_key = None, provider = answering (lit ''Hi''), widgets = example_brief,
          clicked = Generate\<rparr>,
         \<lparr>env_key = Some [], provider = answering (lit ''Hi''), widgets = example_brief,
          clicked = Regenerate\<rparr>] = new_session"
  using missing_credential_halts [of None "answering (lit ''Hi'')" example_brief Generate
      new_session
      "[\<lparr>env_key = None, provider = answering (lit ''Hi''), widgets = example_brief,
          clicked = Generate\<rparr>,
         \<lparr>env_key = Some [], provider = answering (lit ''Hi''), widgets = example_brief,
          clicked = Regenerate\<rparr>]"]
  by simp

text \<open>
  C9. With an empty product name or empty key features, a click on generate shows the
  warning, sends no request and leaves the session state alone; the check is the
  handler's: \<open>generate_content\<close> itself sends its request for empty fields too.
\<close>

theorem blank_fields_stop_at_caller:
  assumes "key \<noteq> []" and "Groq key = Inr create"
    and "product_name f = [] \<or> key_features f = []"
  shows "calls (script (Some key) Groq f Generate st) = []
    \<and> session (script (Some key) Groq f Generate st) = st
    \<and> Warning (lit ''Please provide at least a Product Name and Key Features to generate content.'')
        \<in> set (screen (script (Some key) Groq f Generate st))
    \<and> fst (generate_content create' [] c [] a t d k)
        = [chat_request (build_prompt [] c [] a t d k)]"
proof -
  have s: "script (Some key) Groq f Generate st = page create f Generate st"
    using assms(1,2) by (simp add: script_def)
  show ?thesis
    using assms(3)
    by (simp add: s page_def Let_def on_generate_blank regenerate_and_download_idle
        generate_content_calls)
qed

theorem blank_fields_stop_at_caller_witness:
  "calls (script (Some (lit ''gsk'')) (answering (lit ''Hi''))
            (example_brief\<lparr>product_name := []\<rparr>) Generate new_session) = []
    \<and> session (script (Some (lit ''gsk'')) (answering (lit ''Hi''))
            (example_brief\<lparr>product_name := []\<rparr>) Generate new_session) = new_session
    \<and> Warning (lit ''Please provide at least a Product Name and Key Features to generate content.'')
        \<in> set (screen (script (Some (lit ''gsk'')) (answering (lit ''Hi''))
            (example_brief\<lparr>product_name := []\<rparr>) Generate new_session))"
  using blank_fields_stop_at_caller [of "lit ''gsk''" "answering (lit ''Hi'')"
      "\<lambda>req. Inr [lit ''Hi'']" "example_brief\<lparr>product_name := []\<rparr>" new_session]
  by (simp add: answering_def)

section \<open>The download\<close>

text \<open>
  C6. The data of a download button on the screen is the UTF-8 encoding of the last
  result the session holds after that run; and when the session holds a non-empty result
  that can be encoded, the button is on the screen with those bytes.
\<close>

theorem download_bytes_are_utf8_of_last_result:
  "(DownloadButton d \<in> set (screen (script env Groq f ev st)) \<longrightarrow>
      (\<exists>out. generated_output (session (script env Groq f ev st)) = Some out
            \<and> encode_utf8 out = Some (data d)))
   \<and> (key \<noteq> [] \<and> Groq key = Inr create
       \<and> generated_output (session (script (Some key) Groq f ev st)) = Some out
       \<and> out \<noteq> [] \<and> encode_utf8 out = Some bs \<longrightarrow>
      (\<exists>d. DownloadButton d \<in> set (screen (script (Some key) Groq f ev st)) \<and> data d = bs))"
proof (intro conjI impI)
  assume b: "DownloadButton d \<in> set (screen (script env Groq f ev st))"
  from no_download_without_client [OF b] obtain key create
    where k: "env = Some key" "key \<noteq> []" "Groq key = Inr create" by blast
  then have s: "script env Groq f ev st = page create f ev st"
    by (simp add: script_with_client)
  from b show "\<exists>out. generated_output (session (script env Groq f ev st)) = Some out
            \<and> encode_utf8 out = Some (data d)"
    unfolding s page_button download_button_eq by blast
next
  assume a: "key \<noteq> [] \<and> Groq key = Inr create
       \<and> generated_output (session (script (Some key) Groq f ev st)) = Some out
       \<and> out \<noteq> [] \<and> encode_utf8 out = Some bs"
  then have s: "script (Some key) Groq f ev st = page create f ev st"
    by (simp add: script_with_client)
  from a show "\<exists>d. DownloadButton d \<in> set (screen (script (Some key) Groq f ev st)) \<and> data d = bs"
    unfolding s using page_button_shown [of create f ev st out bs] by blast
qed

theorem download_bytes_are_utf8_of_last_result_witness:
  "DownloadButton
      \<lparr>label = [0x2B07, 0xFE0F] @ lit '' Download Content'', data = [72, 105],
       file_name = lit ''Test Mug'' @ lit ''_descriptions_hashtags.txt'',
       mime = lit ''text/plain''\<rparr>
     \<in> set (screen (script (Some (lit ''gsk'')) (answering (lit ''Hi'')) example_brief
                 Generate new_session))
   \<and> generated_output (session (script (Some (lit ''gsk'')) (answering (lit ''Hi''))
        example_brief Generate new_session)) = Some (lit ''Hi'')
   \<and> encode_utf8 (lit ''Hi'') = Some [72, 105]
   \<and> (\<exists>d. DownloadButton d
             \<in> set (screen (script (Some (lit ''gsk'')) (answering (lit ''Hi''))
                        example_brief Generate new_session))
          \<and> data d = [72, 105])"
proof -
  let ?run = "script (Some (lit ''gsk'')) (answering (lit ''Hi'')) example_brief Generate
                new_session"
  let ?d = "\<lparr>label = [0x2B07, 0xFE0F] @ lit '' Download Content'', data = [72, 105],
       file_name = lit ''Test Mug'' @ lit ''_descriptions_hashtags.txt'',
       mime = lit ''text/plain''\<rparr>"
  have shown: "DownloadButton ?d \<in> set (screen ?run)"
    by (simp add: example_generate_run)
  have out: "generated_output (session ?run) = Some (lit ''Hi'')"
    by (simp add: example_generate_run)
  have enc: "encode_utf8 (lit ''Hi'') = Some [72, 105]"
    by (simp add: lit_def utf8_char_def)
  have key: "lit ''gsk'' \<noteq> []" "answering (lit ''Hi'') (lit ''gsk'') = Inr (\<lambda>req. Inr [lit ''Hi''])"
    by (simp_all add: answering_def)
  from key out enc
  have prem: "lit ''gsk'' \<noteq> []
      \<and> answering (lit ''Hi'') (lit ''gsk'') = Inr (\<lambda>req. Inr [lit ''Hi''])
      \<and> generated_output (session ?run) = Some (lit ''Hi'')
      \<and> lit ''Hi'' \<noteq> [] \<and> encode_utf8 (lit ''Hi'') = Some [72, 105]"
    by simp
  have "\<exists>d. DownloadButton d \<in> set (screen ?run) \<and> data d = [72, 105]"
    by (rule download_bytes_are_utf8_of_last_result
        [of ?d "Some (lit ''gsk'')" "answering (lit ''Hi'')" example_brief Generate new_session
          "lit ''gsk''" "\<lambda>req. Inr [lit ''Hi'']" "lit ''Hi''" "[72, 105]",
         THEN conjunct2, THEN mp, OF prem])
  with shown out enc show ?thesis by (intro conjI)
qed

text \<open>
  C8. In any run of a session that started new, a download button on the screen offers a
  plain-text file: its name is the product name of the latest successful generate of the
  session, this run included, followed by the fixed suffix, and its content is the UTF-8
  encoding of the last result.
\<close>

theorem download_file_named_after_product:
  assumes "DownloadButton d \<in> set (screen (run_once (run_all new_session rs) r))"
  shows "mime d = lit ''text/plain''
    \<and> (\<exists>name out. last_generated_name (rs @ [r]) = Some name
          \<and> file_name d = name @ lit ''_descriptions_hashtags.txt''
          \<and> generated_output (session (run_once (run_all new_session rs) r)) = Some out
          \<and> encode_utf8 out = Some (data d))"
proof -
  let ?st = "run_all new_session rs"
  let ?st' = "session (run_once ?st r)"
  from no_download_without_client [OF assms [unfolded run_once_def]] obtain key create
    where k: "env_key r = Some key" "key \<noteq> []" "provider r key = Inr create" by blast
  then have s: "run_once ?st r = page create (widgets r) (clicked r) ?st"
    by (simp add: run_once_def script_with_client)
  from assms obtain out where out: "generated_output ?st' = Some out"
    and b: "download_button ?st' out = DownloadButton d"
    unfolding s page_button by blast
  from b have d: "encode_utf8 out = Some (data d)" "file_name d = download_file_name ?st'"
    "mime d = lit ''text/plain''"
    by (simp_all add: download_button_eq)
  have last: "run_all new_session (rs @ [r]) = ?st'"
    by (rule run_all_snoc)
  have "generated_output (run_all new_session (rs @ [r])) = None
    \<or> product_name_for_download (run_all new_session (rs @ [r])) \<noteq> None"
    by (rule run_all_output_named) (simp add: new_session_def)
  with last out obtain name where name: "product_name_for_download ?st' = Some name"
    by auto
  have "product_name_for_download ?st' =
     (case last_generated_name (rs @ [r]) of
        Some n \<Rightarrow> Some n
      | None \<Rightarrow> product_name_for_download new_session)"
    unfolding last [symmetric] by (rule run_all_stored_name)
  with name have hist: "last_generated_name (rs @ [r]) = Some name"
    by (simp add: new_session_def split: option.splits)
  from d name hist out show ?thesis
    by (auto simp: download_file_name_def)
qed

theorem download_file_named_after_product_witness:
  "DownloadButton
      \<lparr>label = [0x2B07, 0xFE0F] @ lit '' Download Content'', data = [89, 111],
       file_name = lit ''Desk Lamp'' @ lit ''_descriptions_hashtags.txt'',
       mime = lit ''text/plain''\<rparr>
     \<in> set (screen (run_once
          (run_all new_session
             [\<lparr>env_key = Some (lit ''gsk''), provider = answering (lit ''Hi''),
               widgets = example_brief, clicked = Generate\<rparr>])
          \<lparr>env_key = Some (lit ''gsk''), provider = answering (lit ''Yo''),
           widgets = edited_brief, clicked = Generate\<rparr>))
   \<and> last_generated_name
        ([\<lparr>env_key = Some (lit ''gsk''), provider = answering (lit ''Hi''),
           widgets = example_brief, clicked = Generate\<rparr>]
         @ [\<lparr>env_key = Some (lit ''gsk''), provider = answering (lit ''Yo''),
             widgets = edited_brief, clicked = Generate\<rparr>]) = Some (lit ''Desk Lamp'')
   \<and> (\<exists>name out.
          last_generated_name
            ([\<lparr>env_key = Some (lit ''gsk''), provider = answering (lit ''Hi''),
               widgets = example_brief, clicked = Generate\<rparr>]
             @ [\<lparr>env_key = Some (lit ''gsk''), provider = answering (lit ''Yo''),
                 widgets = edited_brief, clicked = Generate\<rparr>]) = Some name
          \<and> lit ''Desk Lamp'' @ lit ''_descriptions_hashtags.txt''
              = name @ lit ''_descriptions_hashtags.txt''
          \<and> generated_output (session (run_once
               (run_all new_session
                  [\<lparr>env_key = Some (lit ''gsk''), provider = answering (lit ''Hi''),
                    widgets = example_brief, clicked = Generate\<rparr>])
               \<lparr>env_key = Some (lit ''gsk''), provider = answering (lit ''Yo''),
                widgets = edited_brief, clicked = Generate\<rparr>)) = Some out
          \<and> encode_utf8 out = Some [89, 111])"
proof -
  let ?g1 = "\<lparr>env_key = Some (lit ''gsk''), provider = answering (lit ''Hi''),
               widgets = example_brief, clicked = Generate\<rparr>"
  let ?g2 = "\<lparr>env_key = Some (lit ''gsk''), provider = answering (lit ''Yo''),
           widgets = edited_brief, clicked = Generate\<rparr>"
  let ?d = "\<lparr>label = [0x2B07, 0xFE0F] @ lit '' Download Content'', data = [89, 111],
       file_name = lit ''Desk Lamp'' @ lit ''_descriptions_hashtags.txt'',
       mime = lit ''text/plain''\<rparr>"
  have shown: "DownloadButton ?d \<in> set (screen (run_once (run_all new_session [?g1]) ?g2))"
    by (simp add: run_once_def example_generate_run example_second_generate_run)
  have hist: "last_generated_name ([?g1] @ [?g2]) = Some (lit ''Desk Lamp'')"
    using example_history_name by simp
  from download_file_named_after_product [OF shown] shown hist show ?thesis
    by simp
qed

text \<open>
  C10. A run caused by the regenerate button changes nothing of the session state but the
  generated output. After a successful generate, any number of regenerate runs, and one more
  run not caused by generate, the file name on the download button is still the product name
  of that generate followed by the suffix.
\<close>

theorem regenerate_keeps_download_name:
  "product_name_for_download (session (script env Groq f Regenerate st))
     = product_name_for_download st
   \<and> session (script env Groq f Regenerate st)
       = st\<lparr>generated_output :=
              generated_output (session (script env Groq f Regenerate st))\<rparr>
   \<and> (Success (lit ''Content generated successfully!'') \<in> set (screen (run_once st0 g))
       \<and> (\<forall>r\<in>set rs. clicked r = Regenerate) \<and> clicked r \<noteq> Generate
       \<and> DownloadButton d
           \<in> set (screen (run_once (run_all (session (run_once st0 g)) rs) r))
       \<longrightarrow> file_name d = product_name (widgets g) @ lit ''_descriptions_hashtags.txt'')"
proof (intro conjI impI)
  show "product_name_for_download (session (script env Groq f Regenerate st))
     = product_name_for_download st"
    by (simp add: script_regenerate_name)
next
  assume a: "Success (lit ''Content generated successfully!'') \<in> set (screen (run_once st0 g))
       \<and> (\<forall>r\<in>set rs. clicked r = Regenerate) \<and> clicked r \<noteq> Generate
       \<and> DownloadButton d
           \<in> set (screen (run_once (run_all (session (run_once st0 g)) rs) r))"
  let ?st1 = "session (run_once st0 g)"
  let ?st2 = "run_all ?st1 rs"
  let ?st3 = "session (run_once ?st2 r)"
  from a have succ: "Success (lit ''Content generated successfully!'')
      \<in> set (screen (script (env_key g) (provider g) (widgets g) (clicked g) st0))"
    by (simp add: run_once_def)
  have n1: "product_name_for_download ?st1 = Some (product_name (widgets g))"
    unfolding run_once_def by (rule generated_successfully [OF succ, THEN conjunct2])
  from a have "\<forall>r\<in>set rs. clicked r \<noteq> Generate" by simp
  then have n2: "product_name_for_download ?st2 = Some (product_name (widgets g))"
    using n1 by (simp add: run_all_regenerate_name)
  from a have n3: "product_name_for_download ?st3 = Some (product_name (widgets g))"
    using n2 by (simp add: run_once_def script_regenerate_name)
  from a have b: "DownloadButton d \<in> set (screen (run_once ?st2 r))" by simp
  from no_download_without_client [OF b [unfolded run_once_def]] obtain key create
    where k: "env_key r = Some key" "key \<noteq> []" "provider r key = Inr create" by blast
  then have s: "run_once ?st2 r = page create (widgets r) (clicked r) ?st2"
    by (simp add: run_once_def script_with_client)
  from b obtain out where "download_button ?st3 out = DownloadButton d"
    unfolding s page_button by blast
  then have "file_name d = download_file_name ?st3"
    by (simp add: download_button_eq)
  with n3 show "file_name d = product_name (widgets g) @ lit ''_descriptions_hashtags.txt''"
    by (simp add: download_file_name_def)
next
  show "session (script env Groq f Regenerate st)
       = st\<lparr>generated_output :=
              generated_output (session (script env Groq f Regenerate st))\<rparr>"
    by (rule session_state.equality) (simp_all add: script_regenerate_name)
qed

theorem regenerate_keeps_download_name_witness:
  "Success (lit ''Content generated successfully!'')
     \<in> set (screen (run_once new_session
          \<lparr>env_key = Some (lit ''gsk''), provider = answering (lit ''Hi''),
           widgets = example_brief, clicked = Generate\<rparr>))
   \<and> DownloadButton
        \<lparr>label = [0x2B07, 0xFE0F] @ lit '' Download Content'', data = [89, 111],
         file_name = lit ''Test Mug'' @ lit ''_descriptions_hashtags.txt'',
         mime = lit ''text/plain''\<rparr>
       \<in> set (screen (run_once
            (run_all
               (session (run_once new_session
                  \<lparr>env_key = Some (lit ''gsk''), provider = answering (lit ''Hi''),
                   widgets = example_brief, clicked = Generate\<rparr>))
               [\<lparr>env_key = Some (lit ''gsk''), provider = answering (lit ''Yo''),
                 widgets = edited_brief, clicked = Regenerate\<rparr>])
            \<lparr>env_key = Some (lit ''gsk''), provider = answering (lit ''Yo''),
             widgets = edited_brief, clicked = NoClick\<rparr>))
   \<and> file_name
        \<lparr>label = [0x2B07, 0xFE0F] @ lit '' Download Content'', data = [89, 111],
         file_name = lit ''Test Mug'' @ lit ''_descriptions_hashtags.txt'',
         mime = lit ''text/plain''\<rparr>
       = product_name (widgets
           \<lparr>env_key = Some (lit ''gsk''), provider = answering (lit ''Hi''),
            widgets = example_brief, clicked = Generate\<rparr>)
         @ lit ''_descriptions_hashtags.txt''"
proof -
  let ?g = "\<lparr>env_key = Some (lit ''gsk''), provider = answering (lit ''Hi''),
           widgets = example_brief, clicked = Generate\<rparr>"
  let ?rg = "\<lparr>env_key = Some (lit ''gsk''), provider = answering (lit ''Yo''),
                 widgets = edited_brief, clicked = Regenerate\<rparr>"
  let ?r = "\<lparr>env_key = Some (lit ''gsk''), provider = answering (lit ''Yo''),
             widgets = edited_brief, clicked = NoClick\<rparr>"
  let ?d = "\<lparr>label = [0x2B07, 0xFE0F] @ lit '' Download Content'', data = [89, 111],
         file_name = lit ''Test Mug'' @ lit ''_descriptions_hashtags.txt'',
         mime = lit ''text/plain''\<rparr>"
  have succ: "Success (lit ''Content generated successfully!'')
     \<in> set (screen (run_once new_session ?g))"
    by (simp add: run_once_def example_generate_run)
  have shown: "DownloadButton ?d
       \<in> set (screen (run_once (run_all (session (run_once new_session ?g)) [?rg]) ?r))"
    by (simp add: run_once_def example_generate_run example_regenerate_run example_idle_run)
  from succ shown
  have prem: "Success (lit ''Content generated successfully!'')
         \<in> set (screen (run_once new_session ?g))
       \<and> (\<forall>r\<in>set [?rg]. clicked r = Regenerate) \<and> clicked ?r \<noteq> Generate
       \<and> DownloadButton ?d
           \<in> set (screen (run_once (run_all (session (run_once new_session ?g)) [?rg]) ?r))"
    by simp
  have "file_name ?d = product_name (widgets ?g) @ lit ''_descriptions_hashtags.txt''"
    by (rule regenerate_keeps_download_name
        [THEN conjunct2, THEN conjunct2, THEN mp, OF prem])
  with succ shown show ?thesis by (intro conjI)
qed

section \<open>Regenerate and the widgets\<close>

text \<open>
  C3 says that regenerate runs the generation again on the inputs of the last generate.
  The handler reads the widgets of its own run instead. Here the example brief is
  generated, the product name in the form is then changed to "Desk Lamp", and regenerate is
  clicked: the request is built from "Desk Lamp", not from the "Test Mug" that was
  generated, and its answer becomes the last result under the stored name "Test Mug".
\<close>

theorem regenerate_reads_edited_widgets:
  "calls (script (Some (lit ''gsk'')) (answering (lit ''Hi'')) example_brief Generate
            new_session)
     = [chat_request (build_prompt (lit ''Test Mug'') (lit ''Kitchen'')
          (lit ''- Keeps drinks hot'') (lit ''Office workers'') (lit ''Friendly'')
          (lit ''Short (1 paragraph)'') 2)]
   \<and> calls (script (Some (lit ''gsk'')) (answering (lit ''Yo'')) edited_brief Regenerate
        (session (script (Some (lit ''gsk'')) (answering (lit ''Hi'')) example_brief Generate
           new_session)))
     = [chat_request (build_prompt (lit ''Desk Lamp'') (lit ''Kitchen'')
          (lit ''- Keeps drinks hot'') (lit ''Office workers'') (lit ''Friendly'')
          (lit ''Short (1 paragraph)'') 2)]
   \<and> build_prompt (lit ''Desk Lamp'') (lit ''Kitchen'')
          (lit ''- Keeps drinks hot'') (lit ''Office workers'') (lit ''Friendly'')
          (lit ''Short (1 paragraph)'') 2
     \<noteq> build_prompt (lit ''Test Mug'') (lit ''Kitchen'')
          (lit ''- Keeps drinks hot'') (lit ''Office workers'') (lit ''Friendly'')
          (lit ''Short (1 paragraph)'') 2
   \<and> session (script (Some (lit ''gsk'')) (answering (lit ''Yo'')) edited_brief Regenerate
        (session (script (Some (lit ''gsk'')) (answering (lit ''Hi'')) example_brief Generate
           new_session)))
     = \<lparr>generated_output = Some (lit ''Yo''),
        product_name_for_download = Some (lit ''Test Mug'')\<rparr>"
  by (simp add: example_generate_run example_regenerate_run prompts_differ)

end
